theory Spec2Isabelle
  imports Main
begin

section \<open>Common Go notions\<close>

text \<open>
  A Go \<open>error\<close> value is modelled as \<open>error option\<close>: \<open>None\<close> is \<open>nil\<close>.
  A call that can also panic yields a \<open>go\<close> value: either it returns, or it panics
  with the value passed to \<open>panic\<close>.
\<close>

datatype error = Error string

datatype 'a go = Ret 'a | Panic error

text \<open>\<open>fmt.Sprintf("%s%s%s", a, b, c)\<close> concatenates its three string arguments.\<close>

definition Sprintf3 :: "string \<Rightarrow> string \<Rightarrow> string \<Rightarrow> string" where
  "Sprintf3 a b c = a @ b @ c"

text \<open>
  Modelled from the spec: \<open>common.IsFileExist\<close> (package \<open>housekeeper.io/pkg/common\<close>) is
  not among the sources. The spec says the marker "exists locally"; the local file
  system is the set of paths that exist, and the test is membership.
\<close>

definition IsFileExist :: "string \<Rightarrow> string set \<Rightarrow> bool" where
  "IsFileExist path fs = (path \<in> fs)"

section \<open>The node agent: \<open>housekeeper/daemon/server/server.go\<close>\<close>

subsection \<open>Constants\<close>

definition ostreeImage :: string where
  "ostreeImage = ''ostree-unverified-image:docker://''"

definition kubeadmCmd :: string where
  "kubeadmCmd = ''/usr/bin/kubeadm''"

definition upgradeMasterCmd :: string where
  "upgradeMasterCmd = ''/usr/bin/kubeadm upgrade apply -y''"

definition upgradeWorkerCmd :: string where
  "upgradeWorkerCmd = ''/usr/bin/kubeadm upgrade node''"

definition kubeletUpdateCmd :: string where
  "kubeletUpdateCmd = ''systemctl daemon-reload && systemctl restart kubelet''"

definition adminFile :: string where
  "adminFile = ''/etc/kubernetes/admin.conf''"

text \<open>The shell script of \<open>checkOsVersion\<close>; \<open>CHR 0x27\<close> is the single quote.\<close>

definition osReleaseScript :: string where
  "osReleaseScript =
     ''cat /etc/os-release | grep '' @ [CHR 0x27] @ ''VERSION='' @ [CHR 0x27] @
     '' | head -n 1 | awk -F '' @ [CHR 0x27] @ ''VERSION='' @ [CHR 0x27] @ '' '' @
     [CHR 0x27] @ ''{print $2}'' @ [CHR 0x27]"

subsection \<open>Data\<close>

text \<open>The fields of \<open>pb.UpgradeRequest\<close> that the server reads.\<close>

record UpgradeRequest =
  OsVersion :: string
  OsImageUrl :: string
  KubeVersion :: string

text \<open>
  What the server does to the node: the external commands it starts (\<open>exec.Command\<close>
  with the program name and its arguments) and the directories it creates, in order.
\<close>

datatype event = Exec string "string list" | Mkdir string

text \<open>
  The node as the server sees it: the paths that exist, and the events so far.
\<close>

record world =
  files :: "string set"
  events :: "event list"

text \<open>
  The node's side of every external call, a parameter of the model.
  \<^item> \<open>execCommand name args fs\<close>: the outcome of running the program (its standard
    output, or the error of a failed start or a non-zero exit) and the file system it
    leaves;
  \<^item> \<open>MkdirAll path fs\<close>: the outcome of \<open>os.MkdirAll\<close>;
  \<^item> \<open>ParseSemantic\<close> and \<open>compareInternal\<close>: the version library
    (\<open>k8s.io/apimachinery/pkg/util/version\<close>), over its own type \<open>'v\<close> of parsed versions;
    \<open>compareInternal v w\<close> is \<open>-1\<close>, \<open>0\<close> or \<open>1\<close> as \<open>v\<close> is less than, equal to or
    greater than \<open>w\<close>.
\<close>

record 'v host =
  execCommand :: "string \<Rightarrow> string list \<Rightarrow> string set \<Rightarrow> (error + string) \<times> string set"
  MkdirAll :: "string \<Rightarrow> string set \<Rightarrow> error option \<times> string set"
  ParseSemantic :: "string \<Rightarrow> error + 'v"
  compareInternal :: "'v \<Rightarrow> 'v \<Rightarrow> int"

subsection \<open>The version library's entry points\<close>

text \<open>\<open>MustParseSemantic\<close> is \<open>ParseSemantic\<close> that panics on an error.\<close>

definition MustParseSemantic :: "'v host \<Rightarrow> string \<Rightarrow> 'v go" where
  "MustParseSemantic h str =
     (case ParseSemantic h str of Inl err \<Rightarrow> Panic err | Inr v \<Rightarrow> Ret v)"

text \<open>
  \<open>v.Compare(other)\<close> parses \<open>other\<close> the way \<open>v\<close> was parsed (here: as a semantic
  version) and returns the parse error, or the comparison.
\<close>

definition Compare :: "'v host \<Rightarrow> 'v \<Rightarrow> string \<Rightarrow> error + int" where
  "Compare h v other =
     (case ParseSemantic h other of Inl err \<Rightarrow> Inl err | Inr ov \<Rightarrow> Inr (compareInternal h v ov))"

subsection \<open>Running commands\<close>

text \<open>
  \<open>runCmd\<close> starts the command and returns its output or its error.
  \<open>exec.Command(...).Run()\<close> is the same call with the output dropped.
\<close>

definition runCmd :: "'v host \<Rightarrow> string \<Rightarrow> string list \<Rightarrow> world \<Rightarrow> (error + string) \<times> world" where
  "runCmd h name args w =
     (case execCommand h name args (files w) of
        (r, fs) \<Rightarrow> (r, \<lparr>files = fs, events = events w @ [Exec name args]\<rparr>))"

definition Run :: "'v host \<Rightarrow> string \<Rightarrow> string list \<Rightarrow> world \<Rightarrow> error option \<times> world" where
  "Run h name args w =
     (case execCommand h name args (files w) of
        (r, fs) \<Rightarrow> ((case r of Inl err \<Rightarrow> Some err | Inr out \<Rightarrow> None),
                    \<lparr>files = fs, events = events w @ [Exec name args]\<rparr>))"

subsection \<open>The upgrade steps\<close>

definition upgradeOSVersion :: "'v host \<Rightarrow> UpgradeRequest \<Rightarrow> world \<Rightarrow> error option \<times> world" where
  "upgradeOSVersion h req w =
     (let customImageURL = ostreeImage @ OsImageUrl req;
          args = [''rebase'', ''--experimental'', customImageURL, ''--bypass-driver'']
      in case runCmd h ''rpm-ostree'' args w of
           (Inl err, w1) \<Rightarrow> (Some err, w1)
         | (Inr out, w1) \<Rightarrow>
             (case Run h ''/bin/sh'' [''-c'', ''systemctl reboot''] w1 of
                (Some err, w2) \<Rightarrow> (Some err, w2)
              | (None, w2) \<Rightarrow> (None, w2)))"

definition upgradeMasterNodes :: "'v host \<Rightarrow> string \<Rightarrow> world \<Rightarrow> error option \<times> world" where
  "upgradeMasterNodes h version w =
     (case Run h ''/bin/sh'' [''-c'', kubeletUpdateCmd] w of
        (Some err, w1) \<Rightarrow> (Some err, w1)
      | (None, w1) \<Rightarrow>
          (let args = [''-c'', upgradeMasterCmd, version]
           in case Run h ''/bin/sh'' args w1 of
                (Some err, w2) \<Rightarrow> (Some err, w2)
              | (None, w2) \<Rightarrow> (None, w2)))"

definition upgradeWorkerNodes :: "'v host \<Rightarrow> world \<Rightarrow> error option \<times> world" where
  "upgradeWorkerNodes h w =
     (case Run h ''/bin/sh'' [''-c'', kubeletUpdateCmd] w of
        (Some err, w1) \<Rightarrow> (Some err, w1)
      | (None, w1) \<Rightarrow>
          (case Run h ''/bin/sh'' [''-c'', upgradeWorkerCmd] w1 of
             (Some err, w2) \<Rightarrow> (Some err, w2)
           | (None, w2) \<Rightarrow> (None, w2)))"

definition isMasterNode :: "world \<Rightarrow> bool" where
  "isMasterNode w = IsFileExist adminFile (files w)"

definition upgradeKubeVersion :: "'v host \<Rightarrow> UpgradeRequest \<Rightarrow> world \<Rightarrow> error option \<times> world" where
  "upgradeKubeVersion h req w =
     (if isMasterNode w then
        (case upgradeMasterNodes h (KubeVersion req) w of
           (Some err, w1) \<Rightarrow> (Some err, w1)
         | (None, w1) \<Rightarrow> (None, w1))
      else
        (case upgradeWorkerNodes h w of
           (Some err, w1) \<Rightarrow> (Some err, w1)
         | (None, w1) \<Rightarrow> (None, w1)))"

definition checkOsVersion :: "'v host \<Rightarrow> UpgradeRequest \<Rightarrow> world \<Rightarrow> error option go \<times> world" where
  "checkOsVersion h req w =
     (let args = [''-c'', osReleaseScript]
      in case runCmd h ''/bin/sh'' args w of
           (Inl err, w1) \<Rightarrow> (Ret (Some err), w1)
         | (Inr osVersion, w1) \<Rightarrow>
             (case MustParseSemantic h osVersion of
                Panic p \<Rightarrow> (Panic p, w1)
              | Ret v \<Rightarrow>
                  (case Compare h v (OsVersion req) of
                     Inl err \<Rightarrow> (Ret (Some err), w1)
                   | Inr cmp \<Rightarrow>
                       if cmp = 0 then (Ret None, w1)
                       else (case upgradeOSVersion h req w1 of
                               (Some err, w2) \<Rightarrow> (Ret (Some err), w2)
                             | (None, w2) \<Rightarrow> (Ret None, w2)))))"

definition checkKubeVersion :: "'v host \<Rightarrow> UpgradeRequest \<Rightarrow> world \<Rightarrow> error option go \<times> world" where
  "checkKubeVersion h req w =
     (let args = [''version'', ''-o'', ''short'']
      in case runCmd h kubeadmCmd args w of
           (Inl err, w1) \<Rightarrow> (Ret (Some err), w1)
         | (Inr kubeadmVersion, w1) \<Rightarrow>
             (case MustParseSemantic h kubeadmVersion of
                Panic p \<Rightarrow> (Panic p, w1)
              | Ret v \<Rightarrow>
                  (case Compare h v (KubeVersion req) of
                     Inl err \<Rightarrow> (Ret (Some err), w1)
                   | Inr cmp \<Rightarrow>
                       if cmp = - 1 then (Ret None, w1)
                       else (case upgradeKubeVersion h req w1 of
                               (Some err, w2) \<Rightarrow> (Ret (Some err), w2)
                             | (None, w2) \<Rightarrow> (Ret None, w2)))))"

definition markNode :: "'v host \<Rightarrow> string \<Rightarrow> world \<Rightarrow> error option \<times> world" where
  "markNode h file w =
     (case (if \<not> IsFileExist ''/var/housekeeper'' (files w) then
              (case MkdirAll h ''/var/housekeeper'' (files w) of
                 (r, fs) \<Rightarrow> (r, \<lparr>files = fs, events = events w @ [Mkdir ''/var/housekeeper'']\<rparr>))
            else (None, w)) of
        (Some err, w1) \<Rightarrow> (Some err, w1)
      | (None, w1) \<Rightarrow>
          (let args = [''-c'', ''touch'', file]
           in case runCmd h ''/bin/sh'' args w1 of
                (Inl err, w2) \<Rightarrow> (Some err, w2)
              | (Inr out, w2) \<Rightarrow> (None, w2)))"

subsection \<open>The remote operation\<close>

text \<open>
  \<open>Server.Upgrade\<close>. The response is the empty \<open>pb.UpgradeResponse\<close> on every path, so
  the result is the returned \<open>error\<close> (or the panic) and the node afterwards. The mutex
  held around the body has no counterpart in this sequential model.
\<close>

definition Upgrade :: "'v host \<Rightarrow> UpgradeRequest \<Rightarrow> world \<Rightarrow> error option go \<times> world" where
  "Upgrade h req w =
     (case (if 0 < length (OsVersion req) then checkOsVersion h req w else (Ret None, w)) of
        (Panic p, w1) \<Rightarrow> (Panic p, w1)
      | (Ret (Some err), w1) \<Rightarrow> (Ret (Some err), w1)
      | (Ret None, w1) \<Rightarrow>
          if 0 < length (KubeVersion req) then
            (let markFile = Sprintf3 ''/var/housekeeper/'' (KubeVersion req) ''.stamp''
             in if IsFileExist markFile (files w1) then (Ret None, w1)
                else
                  (case checkKubeVersion h req w1 of
                     (Panic p, w2) \<Rightarrow> (Panic p, w2)
                   | (Ret (Some err), w2) \<Rightarrow> (Ret (Some err), w2)
                   | (Ret None, w2) \<Rightarrow>
                       (case markNode h markFile w2 of
                          (Some err, w3) \<Rightarrow> (Ret (Some err), w3)
                        | (None, w3) \<Rightarrow> (Ret None, w3))))
          else (Ret None, w1))"

section \<open>The reconciler: \<open>controllers/update_controller.go\<close>\<close>

subsection \<open>Data\<close>

text \<open>
  Modelled from the spec: \<open>constants.LabelUpgrading\<close> (package
  \<open>housekeeper.io/pkg/constants\<close>) is not among the sources. The spec names the label
  key \<open>upgrading\<close>.
\<close>

definition LabelUpgrading :: string where
  "LabelUpgrading = ''upgrading''"

text \<open>
  Modelled from the spec: \<open>common.RequeueNow\<close> and \<open>common.RequeueAfter\<close> are not among
  the sources. The spec has two requests to the dispatcher: an immediate retry of the
  pass, and a re-check after a bounded delay.
\<close>

datatype Result = RequeueNow | RequeueAfter

text \<open>The \<open>Spec\<close> of an \<open>Update\<close> object, the only part the reconciler reads.\<close>

record Update =
  spec_OSVersion :: string
  spec_OSImageURL :: string
  spec_KubeVersion :: string
  spec_EvictPodForce :: bool

text \<open>
  The fields of a \<open>corev1.Node\<close> that the reconciler reads or writes: \<open>Name\<close>,
  \<open>Labels\<close>, \<open>Spec.Unschedulable\<close> and \<open>Status.NodeInfo.OSImage\<close>.
\<close>

record Node =
  Name :: string
  Labels :: "string \<rightharpoonup> string"
  Unschedulable :: bool
  OSImage :: string

record PushInfo =
  push_KubeVersion :: string
  push_OSImageURL :: string
  push_OSVersion :: string

text \<open>The zero values of Go, which a declared and never assigned object holds.\<close>

definition zeroUpdate :: Update where
  "zeroUpdate = \<lparr>spec_OSVersion = [], spec_OSImageURL = [], spec_KubeVersion = [],
                  spec_EvictPodForce = False\<rparr>"

definition zeroNode :: Node where
  "zeroNode = \<lparr>Name = [], Labels = Map.empty, Unschedulable = False, OSImage = []\<rparr>"

text \<open>
  The calls the reconciler makes on the cluster, in order: the two reads and the write
  of the client, cordon or uncordon (node name, desired flag), drain (the drainer's
  \<open>Force\<close>, node name), and the remote call to the node agent.
\<close>

datatype call =
    ClientGetUpdate string
  | ClientGetNode string
  | ClientUpdate Node
  | CordonOrUncordon string bool
  | NodeDrain bool string
  | AgentUpgrade PushInfo

text \<open>
  The cluster's side of every call, a parameter of the model. A failed \<open>Get\<close> leaves
  the object it was to fill at its zero value; a successful \<open>Update\<close> returns the
  object as the server stored it. \<open>localFiles\<close> is the file system \<open>checkUpgrade\<close>
  looks at.
\<close>

record cluster =
  GetUpdate :: "string \<Rightarrow> error + Update"
  GetNode :: "string \<Rightarrow> error + Node"
  UpdateNode :: "Node \<Rightarrow> error + Node"
  RunCordonOrUncordon :: "Node \<Rightarrow> bool \<Rightarrow> error option"
  RunNodeDrain :: "bool \<Rightarrow> string \<Rightarrow> error option"
  UpgradeKubeSpec :: "PushInfo \<Rightarrow> error option"
  localFiles :: "string set"

text \<open>
  A label is present when the lookup \<open>node.Labels[key]\<close> reports \<open>ok\<close>, that is when the
  map has a value at the key.
\<close>

text \<open>\<open>err.Error()\<close>, as \<open>%v\<close> and \<open>%w\<close> print it.\<close>

fun Msg :: "error \<Rightarrow> string" where
  "Msg (Error m) = m"

subsection \<open>The functions\<close>

definition checkUpgrade :: "string set \<Rightarrow> string \<Rightarrow> string \<Rightarrow> string \<Rightarrow> bool" where
  "checkUpgrade fs osVersion osVersionSpec kubeVersionSpec =
     (if 0 < length kubeVersionSpec then
        (let markFile = Sprintf3 ''/var/housekeeper/'' kubeVersionSpec ''.stamp''
         in if IsFileExist markFile fs then False else True)
      else osVersion \<noteq> osVersionSpec)"

definition reqInstance :: "cluster \<Rightarrow> string \<Rightarrow> string \<Rightarrow> call list \<Rightarrow> (Update \<times> Node) \<times> call list" where
  "reqInstance c name HostName tr =
     (case GetUpdate c name of
        Inl err \<Rightarrow> ((zeroUpdate, zeroNode), tr @ [ClientGetUpdate name])
      | Inr upInstance \<Rightarrow>
          (case GetNode c HostName of
             Inl err \<Rightarrow> ((upInstance, zeroNode), tr @ [ClientGetUpdate name, ClientGetNode HostName])
           | Inr nodeInstance \<Rightarrow>
               ((upInstance, nodeInstance), tr @ [ClientGetUpdate name, ClientGetNode HostName])))"

definition cordonOrUncordonNode :: "cluster \<Rightarrow> bool \<Rightarrow> Node \<Rightarrow> call list \<Rightarrow> error option \<times> call list" where
  "cordonOrUncordonNode c desired node tr =
     (let carry = (if \<not> desired then ''uncordon'' else ''cordon'')
      in if Unschedulable node = desired then (None, tr)
         else
           (case RunCordonOrUncordon c node desired of
              Some err \<Rightarrow>
                (Some (Error (''failed to '' @ carry @ '': '' @ Msg err)),
                 tr @ [CordonOrUncordon (Name node) desired])
            | None \<Rightarrow> (None, tr @ [CordonOrUncordon (Name node) desired])))"

definition drainNode :: "cluster \<Rightarrow> bool \<Rightarrow> Node \<Rightarrow> call list \<Rightarrow> error option \<times> call list" where
  "drainNode c force node tr =
     (case cordonOrUncordonNode c True node tr of
        (Some err, tr1) \<Rightarrow>
          (Some (Error (''failed to cordon node '' @ Name node @ '': '' @ Msg err)), tr1)
      | (None, tr1) \<Rightarrow>
          (case RunNodeDrain c force (Name node) of
             Some err \<Rightarrow>
               (Some (Error (''unable to drain: '' @ Msg err)), tr1 @ [NodeDrain force (Name node)])
           | None \<Rightarrow> (None, tr1 @ [NodeDrain force (Name node)])))"

text \<open>
  \<open>upgradeNodes\<close>: the drainer is built with \<open>Force\<close> unset and \<open>Force\<close> is set when the
  intent's \<open>EvictPodForce\<close> is; its other fields are fixed.
\<close>

definition upgradeNodes :: "cluster \<Rightarrow> Update \<Rightarrow> Node \<Rightarrow> call list \<Rightarrow> error option \<times> call list" where
  "upgradeNodes c upInstance node tr =
     (if Labels node LabelUpgrading \<noteq> None then
        (let force = (if spec_EvictPodForce upInstance then True else False)
         in case drainNode c force node tr of
              (Some err, tr1) \<Rightarrow> (Some err, tr1)
            | (None, tr1) \<Rightarrow>
                (let pushInfo = \<lparr>push_KubeVersion = spec_KubeVersion upInstance,
                                  push_OSImageURL = spec_OSImageURL upInstance,
                                  push_OSVersion = spec_OSVersion upInstance\<rparr>
                 in case UpgradeKubeSpec c pushInfo of
                      Some err \<Rightarrow> (Some err, tr1 @ [AgentUpgrade pushInfo])
                    | None \<Rightarrow> (None, tr1 @ [AgentUpgrade pushInfo])))
      else (None, tr))"

text \<open>
  \<open>deleteLabel\<close> changes the node object in place, so the node is returned with the
  error.
\<close>

definition deleteLabel :: "cluster \<Rightarrow> Node \<Rightarrow> call list \<Rightarrow> (error option \<times> Node) \<times> call list" where
  "deleteLabel c node tr =
     (if Labels node LabelUpgrading \<noteq> None then
        (let node1 = node\<lparr>Labels := (Labels node)(LabelUpgrading := None)\<rparr>
         in case UpdateNode c node1 of
              Inl err \<Rightarrow> ((Some err, node1), tr @ [ClientUpdate node1])
            | Inr node2 \<Rightarrow> ((None, node2), tr @ [ClientUpdate node1]))
      else ((None, node), tr))"

text \<open>\<open>refreshNodes\<close> drops the error of \<open>deleteLabel\<close>.\<close>

definition refreshNodes :: "cluster \<Rightarrow> Node \<Rightarrow> call list \<Rightarrow> error option \<times> call list" where
  "refreshNodes c node tr =
     (case deleteLabel c node tr of
        ((_, node1), tr1) \<Rightarrow>
          if Unschedulable node1 then
            (case cordonOrUncordonNode c False node1 tr1 of
               (Some err, tr2) \<Rightarrow> (Some err, tr2)
             | (None, tr2) \<Rightarrow> (None, tr2))
          else (None, tr1))"

text \<open>
  \<open>UpdateReconciler.Reconcile\<close>, for the request's name and the reconciler's
  \<open>HostName\<close>. It drops the error of \<open>refreshNodes\<close>.
\<close>

definition Reconcile :: "cluster \<Rightarrow> string \<Rightarrow> string \<Rightarrow> (Result \<times> error option) \<times> call list" where
  "Reconcile c name HostName =
     (case reqInstance c name HostName [] of
        ((upInstance, nodeInstance), tr) \<Rightarrow>
          (let osVersionSpec = spec_OSVersion upInstance;
               kubeVersionSpec = spec_KubeVersion upInstance;
               osVersion = OSImage nodeInstance;
               upgradeCluster = checkUpgrade (localFiles c) osVersion osVersionSpec kubeVersionSpec
           in if upgradeCluster then
                (case upgradeNodes c upInstance nodeInstance tr of
                   (Some err, tr1) \<Rightarrow> ((RequeueNow, Some err), tr1)
                 | (None, tr1) \<Rightarrow> ((RequeueAfter, None), tr1))
              else
                (case refreshNodes c nodeInstance tr of
                   (_, tr1) \<Rightarrow> ((RequeueAfter, None), tr1))))"

section \<open>Properties of calls, and sample environments\<close>

text \<open>
  The calls of a pass that disturb the node's workloads: a cordon (cordon or uncordon
  with the desired flag set), a drain, and the remote call to the node agent.
\<close>

fun disruptive :: "call \<Rightarrow> bool" where
  "disruptive (CordonOrUncordon n desired) = desired"
| "disruptive (NodeDrain force n) = True"
| "disruptive (AgentUpgrade p) = True"
| "disruptive (ClientGetUpdate n) = False"
| "disruptive (ClientGetNode n) = False"
| "disruptive (ClientUpdate n) = False"

text \<open>
  A sample node to run the agent on. Versions are lists of components compared
  component by component. The version parser knows a few strings and rejects every
  other one. The node prints \<open>osRelease\<close> for the OS release script and
  \<open>kubeadmVersion\<close> for \<open>kubeadm version -o short\<close>. The command of \<open>markNode\<close>,
  \<open>/bin/sh -c touch file\<close>, answers as a POSIX shell does: the shell takes the argument
  after the command string as \<open>$0\<close>, so \<open>touch\<close> runs with no operand, exits with status
  1 and creates nothing. Every other command succeeds and prints nothing.
\<close>

fun compareComponents :: "nat list \<Rightarrow> nat list \<Rightarrow> int" where
  "compareComponents [] [] = 0"
| "compareComponents [] (y # ys) = - 1"
| "compareComponents (x # xs) [] = 1"
| "compareComponents (x # xs) (y # ys) =
     (if x < y then - 1 else if y < x then 1 else compareComponents xs ys)"

definition sampleParse :: "string \<Rightarrow> error + nat list" where
  "sampleParse str =
     (if str = ''v1.28.0'' \<or> str = ''1.28.0'' then Inr [1, 28, 0]
      else if str = ''v1.29.0'' \<or> str = ''1.29.0'' then Inr [1, 29, 0]
      else if str = ''22.3.0'' then Inr [22, 3, 0]
      else Inl (Error (''could not parse '' @ str @ '' as version'')))"

definition sampleHost :: "string \<Rightarrow> string \<Rightarrow> nat list host" where
  "sampleHost osRelease kubeadmVersion =
     \<lparr>execCommand = (\<lambda>name args fs.
        if name = kubeadmCmd then (Inr kubeadmVersion, fs)
        else if name = ''/bin/sh'' \<and> args = [''-c'', osReleaseScript] then (Inr osRelease, fs)
        else if name = ''/bin/sh'' \<and> take 2 args = [''-c'', ''touch''] then
          (Inl (Error ''exit status 1''), fs)
        else (Inr [], fs)),
      MkdirAll = (\<lambda>path fs. (None, insert path fs)),
      ParseSemantic = sampleParse,
      compareInternal = compareComponents\<rparr>"

text \<open>
  A sample cluster to run the reconciler on: the read of the intent gives \<open>up\<close>, the
  read of the node gives \<open>node\<close>, writes and cordons succeed, the drain and the agent
  answer \<open>drainResult\<close> and \<open>agentResult\<close>.
\<close>

definition sampleNode :: "bool \<Rightarrow> bool \<Rightarrow> string \<Rightarrow> Node" where
  "sampleNode labelled unschedulable osImage =
     \<lparr>Name = ''node-1'',
      Labels = (if labelled then [LabelUpgrading \<mapsto> []] else Map.empty),
      Unschedulable = unschedulable,
      OSImage = osImage\<rparr>"

definition sampleCluster ::
  "error + Update \<Rightarrow> Node \<Rightarrow> error option \<Rightarrow> error option \<Rightarrow> string set \<Rightarrow> cluster" where
  "sampleCluster up node drainResult agentResult fs =
     \<lparr>GetUpdate = (\<lambda>name. up),
      GetNode = (\<lambda>host. Inr node),
      UpdateNode = (\<lambda>n. Inr n),
      RunCordonOrUncordon = (\<lambda>n desired. None),
      RunNodeDrain = (\<lambda>force name. drainResult),
      UpgradeKubeSpec = (\<lambda>p. agentResult),
      localFiles = fs\<rparr>"

section \<open>The node agent: events only grow\<close>

text \<open>
  Every command the agent starts is appended to the events; no step removes one. The
  orchestrator step that finds no stamp starts at least one command, the version query.
\<close>

lemma runCmd_events: "events (snd (runCmd h name args w)) = events w @ [Exec name args]"
  by (simp add: runCmd_def split: prod.splits)

lemma Run_events: "events (snd (Run h name args w)) = events w @ [Exec name args]"
  by (simp add: Run_def split: prod.splits)

lemma upgradeMasterNodes_events:
  "length (events w) \<le> length (events (snd (upgradeMasterNodes h v w)))"
proof -
  obtain r1 w1 where a: "Run h ''/bin/sh'' [''-c'', kubeletUpdateCmd] w = (r1, w1)"
    by (cases "Run h ''/bin/sh'' [''-c'', kubeletUpdateCmd] w")
  obtain r2 w2 where b: "Run h ''/bin/sh'' [''-c'', upgradeMasterCmd, v] w1 = (r2, w2)"
    by (cases "Run h ''/bin/sh'' [''-c'', upgradeMasterCmd, v] w1")
  have l1: "length (events w) \<le> length (events w1)"
    using Run_events [of h "''/bin/sh''" "[''-c'', kubeletUpdateCmd]" w] a by simp
  have l2: "length (events w1) \<le> length (events w2)"
    using Run_events [of h "''/bin/sh''" "[''-c'', upgradeMasterCmd, v]" w1] b by simp
  show ?thesis
    using l1 l2 by (simp add: upgradeMasterNodes_def a b split: option.splits)
qed

lemma upgradeWorkerNodes_events:
  "length (events w) \<le> length (events (snd (upgradeWorkerNodes h w)))"
proof -
  obtain r1 w1 where a: "Run h ''/bin/sh'' [''-c'', kubeletUpdateCmd] w = (r1, w1)"
    by (cases "Run h ''/bin/sh'' [''-c'', kubeletUpdateCmd] w")
  obtain r2 w2 where b: "Run h ''/bin/sh'' [''-c'', upgradeWorkerCmd] w1 = (r2, w2)"
    by (cases "Run h ''/bin/sh'' [''-c'', upgradeWorkerCmd] w1")
  have l1: "length (events w) \<le> length (events w1)"
    using Run_events [of h "''/bin/sh''" "[''-c'', kubeletUpdateCmd]" w] a by simp
  have l2: "length (events w1) \<le> length (events w2)"
    using Run_events [of h "''/bin/sh''" "[''-c'', upgradeWorkerCmd]" w1] b by simp
  show ?thesis
    using l1 l2 by (simp add: upgradeWorkerNodes_def a b split: option.splits)
qed

lemma upgradeKubeVersion_events:
  "length (events w) \<le> length (events (snd (upgradeKubeVersion h req w)))"
proof (cases "isMasterNode w")
  case True
  obtain r w1 where a: "upgradeMasterNodes h (KubeVersion req) w = (r, w1)"
    by (cases "upgradeMasterNodes h (KubeVersion req) w")
  show ?thesis
    using True upgradeMasterNodes_events [of w h "KubeVersion req"] a
    by (simp add: upgradeKubeVersion_def split: option.splits)
next
  case False
  obtain r w1 where a: "upgradeWorkerNodes h w = (r, w1)"
    by (cases "upgradeWorkerNodes h w")
  show ?thesis
    using False upgradeWorkerNodes_events [of w h] a
    by (simp add: upgradeKubeVersion_def split: option.splits)
qed

lemma checkKubeVersion_events:
  "length (events w) < length (events (snd (checkKubeVersion h req w)))"
proof -
  obtain r w1 where a: "runCmd h kubeadmCmd [''version'', ''-o'', ''short''] w = (r, w1)"
    by (cases "runCmd h kubeadmCmd [''version'', ''-o'', ''short''] w")
  have l1: "length (events w) < length (events w1)"
    using runCmd_events [of h kubeadmCmd "[''version'', ''-o'', ''short'']" w] a by simp
  obtain r2 w2 where b: "upgradeKubeVersion h req w1 = (r2, w2)"
    by (cases "upgradeKubeVersion h req w1")
  have l2: "length (events w1) \<le> length (events w2)"
    using upgradeKubeVersion_events [of w1 h req] b by simp
  show ?thesis
    using l1 l2
    by (simp add: checkKubeVersion_def a b split: sum.splits go.splits option.splits)
qed

lemma markNode_events:
  "length (events w) \<le> length (events (snd (markNode h file w)))"
proof -
  obtain r fs where m: "MkdirAll h ''/var/housekeeper'' (files w) = (r, fs)"
    by (cases "MkdirAll h ''/var/housekeeper'' (files w)")
  let ?w1 = "\<lparr>files = fs, events = events w @ [Mkdir ''/var/housekeeper'']\<rparr>"
  obtain r1 w2 where a: "runCmd h ''/bin/sh'' [''-c'', ''touch'', file] w = (r1, w2)"
    by (cases "runCmd h ''/bin/sh'' [''-c'', ''touch'', file] w")
  obtain r2 w3 where b: "runCmd h ''/bin/sh'' [''-c'', ''touch'', file] ?w1 = (r2, w3)"
    by (cases "runCmd h ''/bin/sh'' [''-c'', ''touch'', file] ?w1")
  have l1: "length (events w) \<le> length (events w2)"
    using runCmd_events [of h "''/bin/sh''" "[''-c'', ''touch'', file]" w] a by simp
  have l2: "length (events w) \<le> length (events w3)"
    using runCmd_events [of h "''/bin/sh''" "[''-c'', ''touch'', file]" ?w1] b by simp
  show ?thesis
    using l1 l2 by (simp add: markNode_def m a b split: sum.splits option.splits)
qed

lemma kube_step_changes_world:
  assumes "\<not> IsFileExist (Sprintf3 ''/var/housekeeper/'' (KubeVersion req) ''.stamp'') (files w1)"
    and "0 < length (KubeVersion req)"
    and "(if 0 < length (OsVersion req) then checkOsVersion h req w else (Ret None, w)) = (Ret None, w1)"
  shows "length (events w1) < length (events (snd (Upgrade h req w)))"
proof -
  let ?f = "Sprintf3 ''/var/housekeeper/'' (KubeVersion req) ''.stamp''"
  obtain r w2 where a: "checkKubeVersion h req w1 = (r, w2)"
    by (cases "checkKubeVersion h req w1")
  have l1: "length (events w1) < length (events w2)"
    using checkKubeVersion_events [of w1 h req] a by simp
  obtain r3 w3 where b: "markNode h ?f w2 = (r3, w3)"
    by (cases "markNode h ?f w2")
  have l2: "length (events w2) \<le> length (events w3)"
    using markNode_events [of w2 h ?f] b by simp
  show ?thesis
    using assms(1,2) l1 l2 unfolding Upgrade_def assms(3)
    by (simp add: a b split: go.splits option.splits)
qed

section \<open>The node agent: a declined upgrade\<close>

text \<open>
  When the installed \<open>kubeadm\<close> is older than the requested version,
  \<open>checkKubeVersion\<close> logs that the requested version is larger and returns \<open>nil\<close>
  without starting an upgrade command. \<open>Upgrade\<close> cannot tell this \<open>nil\<close> from the
  \<open>nil\<close> of a finished upgrade and goes on to \<open>markNode\<close>: its result is that of
  \<open>markNode\<close>.
\<close>

lemma checkKubeVersion_declined:
  assumes ver: "runCmd h kubeadmCmd [''version'', ''-o'', ''short''] w = (Inr out, w1)"
    and cur: "ParseSemantic h out = Inr v"
    and want: "ParseSemantic h (KubeVersion req) = Inr ov"
    and less: "compareInternal h v ov = - 1"
  shows "checkKubeVersion h req w = (Ret None, w1)"
  by (simp add: checkKubeVersion_def ver MustParseSemantic_def Compare_def cur want less)

lemma Upgrade_declined:
  assumes os: "OsVersion req = []"
    and kube: "0 < length (KubeVersion req)"
    and nostamp: "\<not> IsFileExist (''/var/housekeeper/'' @ KubeVersion req @ ''.stamp'') (files w)"
    and ver: "runCmd h kubeadmCmd [''version'', ''-o'', ''short''] w = (Inr out, w1)"
    and cur: "ParseSemantic h out = Inr v"
    and want: "ParseSemantic h (KubeVersion req) = Inr ov"
    and less: "compareInternal h v ov = - 1"
  shows "Upgrade h req w =
           (case markNode h (''/var/housekeeper/'' @ KubeVersion req @ ''.stamp'') w1 of
              (Some err, w3) \<Rightarrow> (Ret (Some err), w3)
            | (None, w3) \<Rightarrow> (Ret None, w3))"
  using kube nostamp
  by (simp add: Upgrade_def os Sprintf3_def checkKubeVersion_declined [OF ver cur want less])

text \<open>
  Claim C3. The claim: when the requested orchestrator version is strictly greater than
  the installed \<open>kubeadm\<close> version and no stamp exists, the call performs no upgrade
  action and returns success. The code goes on to \<open>markNode\<close> after the declined
  upgrade, so the call acts on the node and returns the error of a failed \<open>markNode\<close>:
  here the \<open>touch\<close> fails, and the request for \<open>1.29.0\<close> on a node at \<open>v1.28.0\<close> returns
  that error.
\<close>

theorem C3_declined_upgrade_returns_error:
  "Upgrade (sampleHost [] ''v1.28.0'')
     \<lparr>OsVersion = [], OsImageUrl = [], KubeVersion = ''1.29.0''\<rparr> \<lparr>files = {}, events = []\<rparr> =
   (Ret (Some (Error ''exit status 1'')),
    \<lparr>files = {''/var/housekeeper''},
     events = [Exec ''/usr/bin/kubeadm'' [''version'', ''-o'', ''short''],
               Mkdir ''/var/housekeeper'',
               Exec ''/bin/sh'' [''-c'', ''touch'', ''/var/housekeeper/1.29.0.stamp'']]\<rparr>)"
  by code_simp

section \<open>The node agent: writing the stamp\<close>

text \<open>
  \<open>markNode\<close> starts \<open>/bin/sh\<close> with the arguments \<open>-c\<close>, \<open>touch\<close> and the file. When
  that command fails, \<open>markNode\<close> returns an error, whatever the directory step did.
\<close>

lemma markNode_failed_touch:
  assumes "\<forall>fs. fst (execCommand h ''/bin/sh'' [''-c'', ''touch'', file] fs) = Inl err"
  shows "fst (markNode h file w) \<noteq> None"
proof -
  have run: "\<exists>w2. runCmd h ''/bin/sh'' [''-c'', ''touch'', file] w' = (Inl err, w2)" for w'
    using spec [OF assms, of "files w'"] by (auto simp: runCmd_def split: prod.splits)
  obtain r fs where m: "MkdirAll h ''/var/housekeeper'' (files w) = (r, fs)"
    by (cases "MkdirAll h ''/var/housekeeper'' (files w)")
  let ?w1 = "\<lparr>files = fs, events = events w @ [Mkdir ''/var/housekeeper'']\<rparr>"
  obtain w2 where a: "runCmd h ''/bin/sh'' [''-c'', ''touch'', file] w = (Inl err, w2)"
    using run by blast
  obtain w3 where b: "runCmd h ''/bin/sh'' [''-c'', ''touch'', file] ?w1 = (Inl err, w3)"
    using run by blast
  show ?thesis
    by (simp add: markNode_def m a b split: option.splits)
qed

text \<open>
  Claim C1. The claim: the stamp marker of a version is written if and only if the
  upgrade step for it succeeds; it is written after the upgrade commands succeed. The
  code differs after a successful upgrade. On a worker node with no stamp whose
  \<open>kubeadm\<close> reports \<open>v1.28.0\<close>, a request for \<open>1.28.0\<close> restarts the kubelet and runs
  \<open>kubeadm upgrade node\<close>, both with success; \<open>markNode\<close> then starts
  \<open>/bin/sh -c touch\<close> with the file as a further argument, which fails and creates
  nothing. The call returns that error and the stamp of \<open>1.28.0\<close> is not there.
\<close>

theorem C1_upgraded_node_is_not_stamped:
  "Upgrade (sampleHost [] ''v1.28.0'')
     \<lparr>OsVersion = [], OsImageUrl = [], KubeVersion = ''1.28.0''\<rparr> \<lparr>files = {}, events = []\<rparr> =
   (Ret (Some (Error ''exit status 1'')),
    \<lparr>files = {''/var/housekeeper''},
     events = [Exec ''/usr/bin/kubeadm'' [''version'', ''-o'', ''short''],
               Exec ''/bin/sh'' [''-c'', ''systemctl daemon-reload && systemctl restart kubelet''],
               Exec ''/bin/sh'' [''-c'', ''/usr/bin/kubeadm upgrade node''],
               Mkdir ''/var/housekeeper'',
               Exec ''/bin/sh'' [''-c'', ''touch'', ''/var/housekeeper/1.28.0.stamp'']]\<rparr>)"
  by code_simp

section \<open>The node agent: the stamp short-circuit\<close>

text \<open>
  Claim C2. When the stamp file of the requested orchestrator version exists, the call
  returns success and runs no upgrade command. The orchestrator step starts once the OS
  step is over (skipped for an empty OS version, or returned without error), in the
  world \<open>w1\<close> that step left. With the stamp in \<open>w1\<close> the call returns \<open>nil\<close> and leaves
  \<open>w1\<close> as it is: no command is started and nothing is written. For a request with no OS
  version, \<open>w1\<close> is the world the call started in. The witness is a call on a node where
  the stamp of the requested version exists.
\<close>

theorem C2_stamp_short_circuit:
  assumes kube: "0 < length (KubeVersion req)"
    and os: "(if 0 < length (OsVersion req) then checkOsVersion h req w else (Ret None, w))
             = (Ret None, w1)"
    and stamp: "IsFileExist (''/var/housekeeper/'' @ KubeVersion req @ ''.stamp'') (files w1)"
  shows "Upgrade h req w = (Ret None, w1)"
  using kube stamp unfolding Upgrade_def os by (simp add: Sprintf3_def)

theorem C2_stamp_short_circuit_witness:
  "Upgrade (sampleHost [] ''v1.28.0'')
     \<lparr>OsVersion = [], OsImageUrl = [], KubeVersion = ''1.28.0''\<rparr>
     \<lparr>files = {''/var/housekeeper'', ''/var/housekeeper/1.28.0.stamp''}, events = []\<rparr>
   = (Ret None,
      \<lparr>files = {''/var/housekeeper'', ''/var/housekeeper/1.28.0.stamp''}, events = []\<rparr>)"
proof -
  let ?h = "sampleHost [] ''v1.28.0''"
  let ?req = "\<lparr>OsVersion = [], OsImageUrl = [], KubeVersion = ''1.28.0''\<rparr>"
  let ?w = "\<lparr>files = {''/var/housekeeper'', ''/var/housekeeper/1.28.0.stamp''}, events = []\<rparr>"
  have kube: "0 < length (KubeVersion ?req)" by simp
  have os: "(if 0 < length (OsVersion ?req) then checkOsVersion ?h ?req ?w else (Ret None, ?w))
            = (Ret None, ?w)"
    by simp
  have stamp: "IsFileExist (''/var/housekeeper/'' @ KubeVersion ?req @ ''.stamp'') (files ?w)"
    by (simp add: IsFileExist_def)
  show ?thesis
    by (rule C2_stamp_short_circuit [OF kube os stamp])
qed

section \<open>The node agent: versions that do not parse\<close>

text \<open>
  \<open>checkOsVersion\<close> parses the node's current version with \<open>MustParseSemantic\<close>, which
  panics, and the requested version inside \<open>Compare\<close>, which returns the error. So a
  requested version that does not parse makes the call return the parser's error, and a
  current version that does not parse makes the call panic.
\<close>

lemma checkOsVersion_current_unparseable:
  assumes rel: "runCmd h ''/bin/sh'' [''-c'', osReleaseScript] w = (Inr out, w1)"
    and cur: "ParseSemantic h out = Inl err"
  shows "checkOsVersion h req w = (Panic err, w1)"
  by (simp add: checkOsVersion_def rel MustParseSemantic_def cur)

lemma checkOsVersion_requested_unparseable:
  assumes rel: "runCmd h ''/bin/sh'' [''-c'', osReleaseScript] w = (Inr out, w1)"
    and cur: "ParseSemantic h out = Inr v"
    and want: "ParseSemantic h (OsVersion req) = Inl err"
  shows "checkOsVersion h req w = (Ret (Some err), w1)"
  by (simp add: checkOsVersion_def rel MustParseSemantic_def Compare_def cur want)

lemma Upgrade_current_unparseable:
  assumes os: "0 < length (OsVersion req)"
    and rel: "runCmd h ''/bin/sh'' [''-c'', osReleaseScript] w = (Inr out, w1)"
    and cur: "ParseSemantic h out = Inl err"
  shows "Upgrade h req w = (Panic err, w1)"
  using os by (simp add: Upgrade_def checkOsVersion_current_unparseable [OF rel cur])

lemma Upgrade_requested_unparseable:
  assumes os: "0 < length (OsVersion req)"
    and rel: "runCmd h ''/bin/sh'' [''-c'', osReleaseScript] w = (Inr out, w1)"
    and cur: "ParseSemantic h out = Inr v"
    and want: "ParseSemantic h (OsVersion req) = Inl err"
  shows "Upgrade h req w = (Ret (Some err), w1)"
  using os by (simp add: Upgrade_def checkOsVersion_requested_unparseable [OF rel cur want])

text \<open>
  Claim C4. The claim: with an OS-version target, when the node's current OS version
  string or the requested one fails to parse, the call returns the parse error to the
  caller rather than crashing. The code panics on the current version: the node's OS
  release script prints \<open>"22.03 LTS"\<close> and a newline, which is no semantic version, and
  the request for \<open>22.3.0\<close> ends in the panic of \<open>MustParseSemantic\<close>.
\<close>

theorem C4_unparseable_current_version_panics:
  "Upgrade (sampleHost ([CHR 0x22] @ ''22.03 LTS'' @ [CHR 0x22, CHR 0x0A]) ''v1.28.0'')
     \<lparr>OsVersion = ''22.3.0'', OsImageUrl = ''registry/os:22.3.0'', KubeVersion = []\<rparr>
     \<lparr>files = {}, events = []\<rparr> =
   (Panic (Error (''could not parse '' @ [CHR 0x22] @ ''22.03 LTS'' @ [CHR 0x22, CHR 0x0A]
                   @ '' as version'')),
    \<lparr>files = {}, events = [Exec ''/bin/sh'' [''-c'', osReleaseScript]]\<rparr>)"
  by code_simp

section \<open>The reconciler: the upgrade-due predicate\<close>

text \<open>
  Claim C5. With an orchestrator-version target, \<open>checkUpgrade\<close> is true unless the stamp
  marker of that version exists; with none, it is true exactly when the node's reported
  OS version string and the desired one differ as strings.
\<close>

theorem C5_checkUpgrade:
  "checkUpgrade fs osVersion osVersionSpec kubeVersionSpec =
     (if kubeVersionSpec \<noteq> []
      then (''/var/housekeeper/'' @ kubeVersionSpec @ ''.stamp'') \<notin> fs
      else osVersion \<noteq> osVersionSpec)"
  by (simp add: checkUpgrade_def IsFileExist_def Sprintf3_def)

theorem C5_checkUpgrade_witness:
  "checkUpgrade {''/var/housekeeper/1.28.0.stamp''} ''NestOS 22.03'' ''22.3.0'' ''1.28.0'' = False
   \<and> checkUpgrade {''/var/housekeeper/1.28.0.stamp''} ''NestOS 22.03'' ''22.3.0'' ''1.29.0'' = True
   \<and> checkUpgrade {''/var/housekeeper/1.28.0.stamp''} ''5.2'' ''5.2.0'' [] = True
   \<and> checkUpgrade {} ''5.2'' ''5.2'' [] = False"
  using C5_checkUpgrade [of "{''/var/housekeeper/1.28.0.stamp''}" "''NestOS 22.03''" "''22.3.0''" "''1.28.0''"]
    C5_checkUpgrade [of "{''/var/housekeeper/1.28.0.stamp''}" "''NestOS 22.03''" "''22.3.0''" "''1.29.0''"]
    C5_checkUpgrade [of "{''/var/housekeeper/1.28.0.stamp''}" "''5.2''" "''5.2.0''" "[]"]
    C5_checkUpgrade [of "{}" "''5.2''" "''5.2''" "[]"]
  by simp

section \<open>The reconciler: a pass on a node without the label\<close>

lemma reqInstance_calls:
  assumes "reqInstance c name HostName [] = ((upInstance, node), tr)"
  shows "\<forall>x \<in> set tr. \<not> disruptive x"
  using assms by (auto simp: reqInstance_def split: sum.splits)

lemma reqInstance_failed_read:
  assumes "reqInstance c name HostName [] = ((upInstance, node), tr)"
    and "(\<exists>err. GetUpdate c name = Inl err) \<or> (\<exists>err. GetNode c HostName = Inl err)"
  shows "node = zeroNode"
  using assms by (auto simp: reqInstance_def split: sum.splits)

lemma reqInstance_failed_intent:
  assumes "reqInstance c name HostName [] = ((upInstance, node), tr)"
    and "GetUpdate c name = Inl err"
  shows "upInstance = zeroUpdate"
  using assms by (auto simp: reqInstance_def split: sum.splits)

lemma upgradeNodes_unlabelled:
  "Labels node LabelUpgrading = None \<Longrightarrow> upgradeNodes c upInstance node tr = (None, tr)"
  by (simp add: upgradeNodes_def)

lemma refreshNodes_calls:
  assumes "Labels node LabelUpgrading = None" and "\<forall>x \<in> set tr. \<not> disruptive x"
  shows "\<forall>x \<in> set (snd (refreshNodes c node tr)). \<not> disruptive x"
  using assms
  by (auto simp: refreshNodes_def deleteLabel_def cordonOrUncordonNode_def
      split: option.splits prod.splits if_splits)

lemma sample_reqInstance:
  "reqInstance (sampleCluster (Inr up) node d a fs) name HostName [] =
     ((up, node), [ClientGetUpdate name, ClientGetNode HostName])"
  by (simp add: reqInstance_def sampleCluster_def)

text \<open>
  Claim C6. On a node whose labels have no \<open>upgrading\<close> key, a pass makes no cordon, no
  drain and no call to the node agent, and returns without error, whether or not an
  upgrade is due: \<open>upgradeNodes\<close> returns \<open>nil\<close> and makes no call, and \<open>Reconcile\<close>
  returns \<open>RequeueAfter\<close> with no error after calls none of which is disruptive. In the
  witness the upgrade is due.
\<close>

theorem C6_unsignaled_no_action:
  assumes inst: "reqInstance c name HostName [] = ((upInstance, node), tr)"
    and nolabel: "Labels node LabelUpgrading = None"
  shows "upgradeNodes c upInstance node tr = (None, tr)
       \<and> fst (Reconcile c name HostName) = (RequeueAfter, None)
       \<and> (\<forall>x \<in> set (snd (Reconcile c name HostName)). \<not> disruptive x)"
proof -
  have quiet: "\<forall>x \<in> set tr. \<not> disruptive x"
    by (rule reqInstance_calls [OF inst])
  have up: "upgradeNodes c upInstance node tr = (None, tr)"
    by (rule upgradeNodes_unlabelled [OF nolabel])
  have refresh: "\<forall>x \<in> set (snd (refreshNodes c node tr)). \<not> disruptive x"
    by (rule refreshNodes_calls [OF nolabel quiet])
  show ?thesis
  proof (cases "checkUpgrade (localFiles c) (OSImage node) (spec_OSVersion upInstance)
                  (spec_KubeVersion upInstance)")
    case True
    then show ?thesis
      using up quiet by (simp add: Reconcile_def inst)
  next
    case False
    then show ?thesis
      using up refresh by (simp add: Reconcile_def inst split: prod.splits)
  qed
qed

theorem C6_unsignaled_no_action_witness:
  "Labels (sampleNode False False ''NestOS 22.03'') LabelUpgrading = None
   \<and> checkUpgrade {} ''NestOS 22.03'' ''22.3.0'' [] = True
   \<and> fst (Reconcile (sampleCluster
              (Inr \<lparr>spec_OSVersion = ''22.3.0'', spec_OSImageURL = ''registry/os:22.3.0'',
                    spec_KubeVersion = [], spec_EvictPodForce = False\<rparr>)
              (sampleNode False False ''NestOS 22.03'') None None {}) ''update'' ''node-1'')
       = (RequeueAfter, None)
   \<and> filter disruptive (snd (Reconcile (sampleCluster
              (Inr \<lparr>spec_OSVersion = ''22.3.0'', spec_OSImageURL = ''registry/os:22.3.0'',
                    spec_KubeVersion = [], spec_EvictPodForce = False\<rparr>)
              (sampleNode False False ''NestOS 22.03'') None None {}) ''update'' ''node-1''))
       = []"
proof -
  let ?up = "\<lparr>spec_OSVersion = ''22.3.0'', spec_OSImageURL = ''registry/os:22.3.0'',
               spec_KubeVersion = [], spec_EvictPodForce = False\<rparr>"
  let ?node = "sampleNode False False ''NestOS 22.03''"
  let ?c = "sampleCluster (Inr ?up) ?node None None {}"
  have inst: "reqInstance ?c ''update'' ''node-1'' [] =
                ((?up, ?node), [ClientGetUpdate ''update'', ClientGetNode ''node-1''])"
    by (rule sample_reqInstance)
  have nolabel: "Labels ?node LabelUpgrading = None"
    by (simp add: sampleNode_def)
  have due: "checkUpgrade {} ''NestOS 22.03'' ''22.3.0'' [] = True"
    by (simp add: checkUpgrade_def)
  note pass = C6_unsignaled_no_action [OF inst nolabel]
  have result: "fst (Reconcile ?c ''update'' ''node-1'') = (RequeueAfter, None)"
    using pass by blast
  have "\<forall>x \<in> set (snd (Reconcile ?c ''update'' ''node-1'')). \<not> disruptive x"
    using pass by blast
  then have quiet: "filter disruptive (snd (Reconcile ?c ''update'' ''node-1'')) = []"
    by (simp add: filter_empty_conv)
  show ?thesis
    using nolabel due result quiet by simp
qed

section \<open>The reconciler: what a pass requests\<close>

text \<open>
  How a pass ends is decided by three calls. \<open>drainNode\<close> cordons the node unless it is
  unschedulable already, and a failed cordon ends it there; otherwise it evicts, and
  returns the eviction's error or \<open>nil\<close>. The restore path makes no cordon, no drain and
  no call to the node agent.
\<close>

lemma deleteLabel_quiet:
  assumes "\<forall>x \<in> set tr. \<not> disruptive x"
  shows "\<forall>x \<in> set (snd (deleteLabel c node tr)). \<not> disruptive x"
  using assms by (auto simp: deleteLabel_def Let_def split: sum.splits)

lemma refreshNodes_quiet:
  assumes "\<forall>x \<in> set tr. \<not> disruptive x"
  shows "\<forall>x \<in> set (snd (refreshNodes c node tr)). \<not> disruptive x"
proof -
  obtain r node1 tr1 where d: "deleteLabel c node tr = ((r, node1), tr1)"
    by (cases "deleteLabel c node tr") auto
  have q1: "\<forall>x \<in> set tr1. \<not> disruptive x"
    using deleteLabel_quiet [OF assms, of c node] d by simp
  show ?thesis
    using q1
    by (auto simp: refreshNodes_def d cordonOrUncordonNode_def split: option.splits)
qed

lemma drainNode_steps:
  "drainNode c force node tr =
     (if \<not> Unschedulable node \<and> RunCordonOrUncordon c node True \<noteq> None
      then (Some (Error (''failed to cordon node '' @ Name node @ '': failed to cordon: ''
                           @ Msg (the (RunCordonOrUncordon c node True)))),
            tr @ [CordonOrUncordon (Name node) True])
      else (case RunNodeDrain c force (Name node) of
              Some err \<Rightarrow> Some (Error (''unable to drain: '' @ Msg err))
            | None \<Rightarrow> None,
            (if Unschedulable node then tr else tr @ [CordonOrUncordon (Name node) True])
              @ [NodeDrain force (Name node)]))"
  by (auto simp: drainNode_def cordonOrUncordonNode_def split: option.splits)

text \<open>
  Claim C7, amended. An error from draining (the cordon or the eviction) or from the
  call to the node agent makes \<open>Reconcile\<close> return \<open>RequeueNow\<close> with that error: the
  cordon's and the eviction's wrapped in the messages of \<open>drainNode\<close>, the agent's as it
  is. These calls are made only when an upgrade is due and the node has the label, in
  the order cordon, eviction, agent, each after the one before succeeded. With no such
  error the pass returns \<open>RequeueAfter\<close> with no error. In every other pass, a failed read
  of the intent or of the node among them (\<open>reqInstance\<close> logs it and returns zero
  values), \<open>Reconcile\<close> returns \<open>RequeueAfter\<close> with no error and makes none of these
  calls.
\<close>

theorem C7_requeue:
  assumes inst: "reqInstance c name HostName [] = ((upInstance, node), tr)"
    and due: "due = (checkUpgrade (localFiles c) (OSImage node) (spec_OSVersion upInstance)
                       (spec_KubeVersion upInstance)
                     \<and> Labels node LabelUpgrading \<noteq> None)"
    and force: "force = spec_EvictPodForce upInstance"
    and push: "pushInfo = \<lparr>push_KubeVersion = spec_KubeVersion upInstance,
                            push_OSImageURL = spec_OSImageURL upInstance,
                            push_OSVersion = spec_OSVersion upInstance\<rparr>"
    and cordoned: "tr1 = (if Unschedulable node then tr
                          else tr @ [CordonOrUncordon (Name node) True])"
  shows "(due \<and> \<not> Unschedulable node \<and> RunCordonOrUncordon c node True = Some err \<longrightarrow>
            Reconcile c name HostName =
              ((RequeueNow,
                Some (Error (''failed to cordon node '' @ Name node @ '': failed to cordon: ''
                               @ Msg err))),
               tr1))
       \<and> (due \<and> (Unschedulable node \<or> RunCordonOrUncordon c node True = None)
            \<and> RunNodeDrain c force (Name node) = Some err \<longrightarrow>
            Reconcile c name HostName =
              ((RequeueNow, Some (Error (''unable to drain: '' @ Msg err))),
               tr1 @ [NodeDrain force (Name node)]))
       \<and> (due \<and> (Unschedulable node \<or> RunCordonOrUncordon c node True = None)
            \<and> RunNodeDrain c force (Name node) = None
            \<and> UpgradeKubeSpec c pushInfo = Some err \<longrightarrow>
            Reconcile c name HostName =
              ((RequeueNow, Some err),
               tr1 @ [NodeDrain force (Name node), AgentUpgrade pushInfo]))
       \<and> (due \<and> (Unschedulable node \<or> RunCordonOrUncordon c node True = None)
            \<and> RunNodeDrain c force (Name node) = None
            \<and> UpgradeKubeSpec c pushInfo = None \<longrightarrow>
            Reconcile c name HostName =
              ((RequeueAfter, None),
               tr1 @ [NodeDrain force (Name node), AgentUpgrade pushInfo]))
       \<and> (\<not> due \<longrightarrow>
            fst (Reconcile c name HostName) = (RequeueAfter, None)
            \<and> (\<forall>x \<in> set (snd (Reconcile c name HostName)). \<not> disruptive x))
       \<and> ((\<exists>e. GetUpdate c name = Inl e) \<or> (\<exists>e. GetNode c HostName = Inl e) \<longrightarrow>
            \<not> due \<and> fst (Reconcile c name HostName) = (RequeueAfter, None))"
proof -
  have quiet: "\<forall>x \<in> set tr. \<not> disruptive x"
    by (rule reqInstance_calls [OF inst])
  have f: "(if spec_EvictPodForce upInstance then True else False) = force"
    by (simp add: force)
  have run: "Reconcile c name HostName =
               (case drainNode c force node tr of
                  (Some e, tr2) \<Rightarrow> ((RequeueNow, Some e), tr2)
                | (None, tr2) \<Rightarrow>
                    (case UpgradeKubeSpec c pushInfo of
                       Some e \<Rightarrow> ((RequeueNow, Some e), tr2 @ [AgentUpgrade pushInfo])
                     | None \<Rightarrow> ((RequeueAfter, None), tr2 @ [AgentUpgrade pushInfo])))"
    if "due"
    using that unfolding due
    by (simp add: Reconcile_def inst upgradeNodes_def f push [symmetric]
        split: prod.splits option.splits)
  have c1: "Reconcile c name HostName =
              ((RequeueNow,
                Some (Error (''failed to cordon node '' @ Name node @ '': failed to cordon: ''
                               @ Msg err))),
               tr1)"
    if "due" "\<not> Unschedulable node" "RunCordonOrUncordon c node True = Some err"
    using that by (simp add: run drainNode_steps cordoned)
  have ok: "drainNode c force node tr =
              (case RunNodeDrain c force (Name node) of
                 Some e \<Rightarrow> Some (Error (''unable to drain: '' @ Msg e))
               | None \<Rightarrow> None,
               tr1 @ [NodeDrain force (Name node)])"
    if "Unschedulable node \<or> RunCordonOrUncordon c node True = None"
    using that by (auto simp: drainNode_steps cordoned)
  have c2: "Reconcile c name HostName =
              ((RequeueNow, Some (Error (''unable to drain: '' @ Msg err))),
               tr1 @ [NodeDrain force (Name node)])"
    if "due" "Unschedulable node \<or> RunCordonOrUncordon c node True = None"
      "RunNodeDrain c force (Name node) = Some err"
    using that by (simp add: run ok)
  have c3: "Reconcile c name HostName =
              ((RequeueNow, Some err),
               tr1 @ [NodeDrain force (Name node), AgentUpgrade pushInfo])"
    if "due" "Unschedulable node \<or> RunCordonOrUncordon c node True = None"
      "RunNodeDrain c force (Name node) = None" "UpgradeKubeSpec c pushInfo = Some err"
    using that by (simp add: run ok)
  have c4: "Reconcile c name HostName =
              ((RequeueAfter, None),
               tr1 @ [NodeDrain force (Name node), AgentUpgrade pushInfo])"
    if "due" "Unschedulable node \<or> RunCordonOrUncordon c node True = None"
      "RunNodeDrain c force (Name node) = None" "UpgradeKubeSpec c pushInfo = None"
    using that by (simp add: run ok)
  have c5: "fst (Reconcile c name HostName) = (RequeueAfter, None)
            \<and> (\<forall>x \<in> set (snd (Reconcile c name HostName)). \<not> disruptive x)"
    if nd: "\<not> due"
  proof (cases "checkUpgrade (localFiles c) (OSImage node) (spec_OSVersion upInstance)
                  (spec_KubeVersion upInstance)")
    case True
    then have "Labels node LabelUpgrading = None"
      using nd unfolding due by simp
    then have "upgradeNodes c upInstance node tr = (None, tr)"
      by (rule upgradeNodes_unlabelled)
    then show ?thesis
      using True quiet by (simp add: Reconcile_def inst)
  next
    case False
    then show ?thesis
      using refreshNodes_quiet [OF quiet, of c node]
      by (simp add: Reconcile_def inst split: prod.splits)
  qed
  have c6: "\<not> due \<and> fst (Reconcile c name HostName) = (RequeueAfter, None)"
    if failed: "(\<exists>e. GetUpdate c name = Inl e) \<or> (\<exists>e. GetNode c HostName = Inl e)"
  proof -
    have "node = zeroNode"
      by (rule reqInstance_failed_read [OF inst failed])
    then have "Labels node LabelUpgrading = None"
      by (simp add: zeroNode_def)
    then have "\<not> due"
      unfolding due by simp
    then show ?thesis
      using c5 by simp
  qed
  show ?thesis
    using c1 c2 c3 c4 c5 c6 by blast
qed


theorem C7_requeue_witness:
  "Reconcile ((sampleCluster
          (Inr \<lparr>spec_OSVersion = ''22.3.0'', spec_OSImageURL = ''registry/os:22.3.0'',
                spec_KubeVersion = [], spec_EvictPodForce = False\<rparr>)
          (sampleNode True False ''NestOS 22.03'') None None {})
          \<lparr>RunCordonOrUncordon := \<lambda>n desired. Some (Error ''conflict'')\<rparr>)
        ''update'' ''node-1''
     = ((RequeueNow, Some (Error ''failed to cordon node node-1: failed to cordon: conflict'')),
        [ClientGetUpdate ''update'', ClientGetNode ''node-1'', CordonOrUncordon ''node-1'' True])
   \<and> Reconcile (sampleCluster
          (Inr \<lparr>spec_OSVersion = ''22.3.0'', spec_OSImageURL = ''registry/os:22.3.0'',
                spec_KubeVersion = [], spec_EvictPodForce = False\<rparr>)
          (sampleNode True False ''NestOS 22.03'') (Some (Error ''eviction refused'')) None {})
        ''update'' ''node-1''
     = ((RequeueNow, Some (Error ''unable to drain: eviction refused'')),
        [ClientGetUpdate ''update'', ClientGetNode ''node-1'', CordonOrUncordon ''node-1'' True,
         NodeDrain False ''node-1''])
   \<and> Reconcile (sampleCluster
          (Inr \<lparr>spec_OSVersion = ''22.3.0'', spec_OSImageURL = ''registry/os:22.3.0'',
                spec_KubeVersion = [], spec_EvictPodForce = False\<rparr>)
          (sampleNode True False ''NestOS 22.03'') None (Some (Error ''agent unreachable'')) {})
        ''update'' ''node-1''
     = ((RequeueNow, Some (Error ''agent unreachable'')),
        [ClientGetUpdate ''update'', ClientGetNode ''node-1'', CordonOrUncordon ''node-1'' True,
         NodeDrain False ''node-1'',
         AgentUpgrade \<lparr>push_KubeVersion = [], push_OSImageURL = ''registry/os:22.3.0'',
                       push_OSVersion = ''22.3.0''\<rparr>])
   \<and> Reconcile (sampleCluster
          (Inr \<lparr>spec_OSVersion = ''22.3.0'', spec_OSImageURL = ''registry/os:22.3.0'',
                spec_KubeVersion = [], spec_EvictPodForce = False\<rparr>)
          (sampleNode True False ''NestOS 22.03'') None None {})
        ''update'' ''node-1''
     = ((RequeueAfter, None),
        [ClientGetUpdate ''update'', ClientGetNode ''node-1'', CordonOrUncordon ''node-1'' True,
         NodeDrain False ''node-1'',
         AgentUpgrade \<lparr>push_KubeVersion = [], push_OSImageURL = ''registry/os:22.3.0'',
                       push_OSVersion = ''22.3.0''\<rparr>])
   \<and> fst (Reconcile (sampleCluster
          (Inr \<lparr>spec_OSVersion = ''22.3.0'', spec_OSImageURL = ''registry/os:22.3.0'',
                spec_KubeVersion = [], spec_EvictPodForce = False\<rparr>)
          (sampleNode True True ''22.3.0'') (Some (Error ''eviction refused''))
          (Some (Error ''agent unreachable'')) {})
        ''update'' ''node-1'')
     = (RequeueAfter, None)
   \<and> filter disruptive (snd (Reconcile (sampleCluster
          (Inr \<lparr>spec_OSVersion = ''22.3.0'', spec_OSImageURL = ''registry/os:22.3.0'',
                spec_KubeVersion = [], spec_EvictPodForce = False\<rparr>)
          (sampleNode True True ''22.3.0'') (Some (Error ''eviction refused''))
          (Some (Error ''agent unreachable'')) {})
        ''update'' ''node-1''))
     = []
   \<and> fst (Reconcile (sampleCluster (Inl (Error ''not found''))
          (sampleNode True False ''NestOS 22.03'') None None {})
        ''update'' ''node-1'')
     = (RequeueAfter, None)"
proof -
  let ?up = "\<lparr>spec_OSVersion = ''22.3.0'', spec_OSImageURL = ''registry/os:22.3.0'',
               spec_KubeVersion = [], spec_EvictPodForce = False\<rparr>"
  let ?p = "\<lparr>push_KubeVersion = [], push_OSImageURL = ''registry/os:22.3.0'',
              push_OSVersion = ''22.3.0''\<rparr>"
  let ?node = "sampleNode True False ''NestOS 22.03''"
  let ?done = "sampleNode True True ''22.3.0''"
  let ?tr = "[ClientGetUpdate ''update'', ClientGetNode ''node-1'']"
  let ?c1 = "(sampleCluster (Inr ?up) ?node None None {})
               \<lparr>RunCordonOrUncordon := \<lambda>n desired. Some (Error ''conflict'')\<rparr>"
  let ?c2 = "sampleCluster (Inr ?up) ?node (Some (Error ''eviction refused'')) None {}"
  let ?c3 = "sampleCluster (Inr ?up) ?node None (Some (Error ''agent unreachable'')) {}"
  let ?c4 = "sampleCluster (Inr ?up) ?node None None {}"
  let ?c5 = "sampleCluster (Inr ?up) ?done (Some (Error ''eviction refused''))
               (Some (Error ''agent unreachable'')) {}"
  let ?c6 = "sampleCluster (Inl (Error ''not found'')) ?node None None {}"
  have i1: "reqInstance ?c1 ''update'' ''node-1'' [] = ((?up, ?node), ?tr)"
    by (simp add: reqInstance_def sampleCluster_def)
  have i2: "reqInstance ?c2 ''update'' ''node-1'' [] = ((?up, ?node), ?tr)"
    by (rule sample_reqInstance)
  have i3: "reqInstance ?c3 ''update'' ''node-1'' [] = ((?up, ?node), ?tr)"
    by (rule sample_reqInstance)
  have i4: "reqInstance ?c4 ''update'' ''node-1'' [] = ((?up, ?node), ?tr)"
    by (rule sample_reqInstance)
  have i5: "reqInstance ?c5 ''update'' ''node-1'' [] = ((?up, ?done), ?tr)"
    by (rule sample_reqInstance)
  have i6: "reqInstance ?c6 ''update'' ''node-1'' [] =
              ((zeroUpdate, zeroNode), [ClientGetUpdate ''update''])"
    by (simp add: reqInstance_def sampleCluster_def)
  have facts:
    "Name ?node = ''node-1''" "\<not> Unschedulable ?node" "OSImage ?node = ''NestOS 22.03''"
    "Labels ?node LabelUpgrading \<noteq> None" "OSImage ?done = ''22.3.0''"
    by (simp_all add: sampleNode_def)
  have due: "checkUpgrade {} ''NestOS 22.03'' ''22.3.0'' []"
    and notdue: "\<not> checkUpgrade {} ''22.3.0'' ''22.3.0'' []"
    by (simp_all add: checkUpgrade_def)
  have r1: "Reconcile ?c1 ''update'' ''node-1'' =
      ((RequeueNow, Some (Error ''failed to cordon node node-1: failed to cordon: conflict'')),
       ?tr @ [CordonOrUncordon ''node-1'' True])"
    using C7_requeue [OF i1 refl refl refl refl, of "Error ''conflict''"] facts due
    by (simp add: sampleCluster_def)
  have r2: "Reconcile ?c2 ''update'' ''node-1'' =
      ((RequeueNow, Some (Error ''unable to drain: eviction refused'')),
       ?tr @ [CordonOrUncordon ''node-1'' True, NodeDrain False ''node-1''])"
    using C7_requeue [OF i2 refl refl refl refl, of "Error ''eviction refused''"] facts due
    by (simp add: sampleCluster_def)
  have r3: "Reconcile ?c3 ''update'' ''node-1'' =
      ((RequeueNow, Some (Error ''agent unreachable'')),
       ?tr @ [CordonOrUncordon ''node-1'' True, NodeDrain False ''node-1'', AgentUpgrade ?p])"
    using C7_requeue [OF i3 refl refl refl refl, of "Error ''agent unreachable''"] facts due
    by (simp add: sampleCluster_def)
  have r4: "Reconcile ?c4 ''update'' ''node-1'' =
      ((RequeueAfter, None),
       ?tr @ [CordonOrUncordon ''node-1'' True, NodeDrain False ''node-1'', AgentUpgrade ?p])"
    using C7_requeue [OF i4 refl refl refl refl, of "Error []"] facts due
    by (simp add: sampleCluster_def)
  have r5: "fst (Reconcile ?c5 ''update'' ''node-1'') = (RequeueAfter, None)
            \<and> (\<forall>x \<in> set (snd (Reconcile ?c5 ''update'' ''node-1'')). \<not> disruptive x)"
    using C7_requeue [OF i5 refl refl refl refl, of "Error []"] facts notdue
    by (simp add: sampleCluster_def)
  then have q5: "filter disruptive (snd (Reconcile ?c5 ''update'' ''node-1'')) = []"
    by (simp add: filter_empty_conv)
  have f6: "(\<exists>e. GetUpdate ?c6 ''update'' = Inl e) \<or> (\<exists>e. GetNode ?c6 ''node-1'' = Inl e)"
    by (simp add: sampleCluster_def)
  have r6: "fst (Reconcile ?c6 ''update'' ''node-1'') = (RequeueAfter, None)"
    using C7_requeue [OF i6 refl refl refl refl, of "Error []"] f6 by blast
  show ?thesis
    using r1 r2 r3 r4 r5 q5 r6 by simp
qed

text \<open>
  Claim C7 as stated fails on a failed read: the read of the intent returns an error,
  and the pass requests the delayed re-check with no error.
\<close>

theorem C7_failed_read_counterexample:
  "GetUpdate (sampleCluster (Inl (Error ''not found'')) (sampleNode True False ''NestOS 22.03'')
       None None {}) ''update'' = Inl (Error ''not found'')
   \<and> fst (Reconcile (sampleCluster (Inl (Error ''not found'')) (sampleNode True False ''NestOS 22.03'')
       None None {}) ''update'' ''node-1'') = (RequeueAfter, None)"
  by (simp add: Reconcile_def reqInstance_def sampleCluster_def zeroUpdate_def zeroNode_def
      checkUpgrade_def refreshNodes_def deleteLabel_def)

section \<open>The two stamp checks\<close>

text \<open>
  Claim C8. The reconciler and the node agent build the same marker path from the
  version, \<open>/var/housekeeper/\<close>, the version, \<open>.stamp\<close>, and test the same file. On the
  file system \<open>files w1\<close> that the agent's orchestrator step sees, \<open>checkUpgrade\<close> is false
  exactly when that file exists, and the agent returns at once, leaving the world as it
  is, exactly when that file exists.
\<close>

theorem C8_same_stamp_check:
  assumes kube: "0 < length (KubeVersion req)"
    and os: "(if 0 < length (OsVersion req) then checkOsVersion h req w else (Ret None, w))
             = (Ret None, w1)"
  shows "(checkUpgrade (files w1) osVersion osVersionSpec (KubeVersion req)
            = (\<not> IsFileExist (''/var/housekeeper/'' @ KubeVersion req @ ''.stamp'') (files w1)))
       \<and> ((Upgrade h req w = (Ret None, w1))
            = IsFileExist (''/var/housekeeper/'' @ KubeVersion req @ ''.stamp'') (files w1))"
proof (cases "IsFileExist (Sprintf3 ''/var/housekeeper/'' (KubeVersion req) ''.stamp'') (files w1)")
  case True
  have "Upgrade h req w = (Ret None, w1)"
    using kube True unfolding Upgrade_def os by simp
  then show ?thesis
    using kube True by (simp add: checkUpgrade_def Sprintf3_def)
next
  case False
  have "length (events w1) < length (events (snd (Upgrade h req w)))"
    by (rule kube_step_changes_world [OF False kube os])
  then have "Upgrade h req w \<noteq> (Ret None, w1)"
    by auto
  then show ?thesis
    using kube False by (simp add: checkUpgrade_def Sprintf3_def)
qed

theorem C8_same_stamp_check_witness:
  "(checkUpgrade {''/var/housekeeper/1.28.0.stamp''} ''NestOS 22.03'' [] ''1.28.0''
      = (\<not> IsFileExist ''/var/housekeeper/1.28.0.stamp'' {''/var/housekeeper/1.28.0.stamp''}))
   \<and> ((Upgrade (sampleHost [] ''v1.28.0'')
          \<lparr>OsVersion = [], OsImageUrl = [], KubeVersion = ''1.28.0''\<rparr>
          \<lparr>files = {''/var/housekeeper/1.28.0.stamp''}, events = []\<rparr>
        = (Ret None, \<lparr>files = {''/var/housekeeper/1.28.0.stamp''}, events = []\<rparr>))
      = IsFileExist ''/var/housekeeper/1.28.0.stamp'' {''/var/housekeeper/1.28.0.stamp''})
   \<and> IsFileExist ''/var/housekeeper/1.28.0.stamp'' {''/var/housekeeper/1.28.0.stamp''}"
proof -
  let ?h = "sampleHost [] ''v1.28.0''"
  let ?req = "\<lparr>OsVersion = [], OsImageUrl = [], KubeVersion = ''1.28.0''\<rparr>"
  let ?w = "\<lparr>files = {''/var/housekeeper/1.28.0.stamp''}, events = []\<rparr>"
  have kube: "0 < length (KubeVersion ?req)" by simp
  have os: "(if 0 < length (OsVersion ?req) then checkOsVersion ?h ?req ?w else (Ret None, ?w))
            = (Ret None, ?w)"
    by simp
  have ex: "IsFileExist ''/var/housekeeper/1.28.0.stamp'' {''/var/housekeeper/1.28.0.stamp''}"
    by (simp add: IsFileExist_def)
  show ?thesis
    using C8_same_stamp_check [OF kube os, of "''NestOS 22.03''" "[]"] ex by simp
qed

section \<open>The reconciler: an intent with no orchestrator version\<close>

lemma drainNode_drains:
  assumes "fst (cordonOrUncordonNode c True node tr) = None"
  shows "NodeDrain force (Name node) \<in> set (snd (drainNode c force node tr))"
  using assms by (auto simp: drainNode_def split: prod.splits option.splits)

text \<open>
  Claim C10. With an empty orchestrator-version target \<open>checkUpgrade\<close> does not look at
  the file system and is true exactly when the two OS version strings differ, also when
  the OS-version target is empty: an intent with both targets empty is due on every node
  that reports a non-empty OS image. On a node with the label the pass then runs
  \<open>drainNode\<close> (the drain itself once the cordon has succeeded) and, when that succeeds,
  calls the node agent with empty version fields.
\<close>

theorem C10_empty_targets:
  "checkUpgrade fs osVersion osVersionSpec [] = (osVersion \<noteq> osVersionSpec)
   \<and> (osVersion \<noteq> [] \<longrightarrow> checkUpgrade fs osVersion [] [])
   \<and> (reqInstance c name HostName [] = ((upInstance, node), tr) \<longrightarrow>
      spec_KubeVersion upInstance = [] \<longrightarrow> spec_OSVersion upInstance = [] \<longrightarrow>
      OSImage node \<noteq> [] \<longrightarrow> Labels node LabelUpgrading \<noteq> None \<longrightarrow>
        Reconcile c name HostName =
          (case drainNode c (spec_EvictPodForce upInstance) node tr of
             (Some err, tr1) \<Rightarrow> ((RequeueNow, Some err), tr1)
           | (None, tr1) \<Rightarrow>
               (case UpgradeKubeSpec c
                       \<lparr>push_KubeVersion = [], push_OSImageURL = spec_OSImageURL upInstance,
                        push_OSVersion = []\<rparr> of
                  Some err \<Rightarrow>
                    ((RequeueNow, Some err),
                     tr1 @ [AgentUpgrade \<lparr>push_KubeVersion = [],
                              push_OSImageURL = spec_OSImageURL upInstance, push_OSVersion = []\<rparr>])
                | None \<Rightarrow>
                    ((RequeueAfter, None),
                     tr1 @ [AgentUpgrade \<lparr>push_KubeVersion = [],
                              push_OSImageURL = spec_OSImageURL upInstance, push_OSVersion = []\<rparr>])))
        \<and> (fst (cordonOrUncordonNode c True node tr) = None \<longrightarrow>
             NodeDrain (spec_EvictPodForce upInstance) (Name node)
               \<in> set (snd (Reconcile c name HostName))))"
proof -
  have a: "checkUpgrade fs osVersion osVersionSpec [] = (osVersion \<noteq> osVersionSpec)"
    by (simp add: checkUpgrade_def)
  have b: "osVersion \<noteq> [] \<longrightarrow> checkUpgrade fs osVersion [] []"
    by (simp add: checkUpgrade_def)
  have c: "Reconcile c name HostName =
          (case drainNode c (spec_EvictPodForce upInstance) node tr of
             (Some err, tr1) \<Rightarrow> ((RequeueNow, Some err), tr1)
           | (None, tr1) \<Rightarrow>
               (case UpgradeKubeSpec c
                       \<lparr>push_KubeVersion = [], push_OSImageURL = spec_OSImageURL upInstance,
                        push_OSVersion = []\<rparr> of
                  Some err \<Rightarrow>
                    ((RequeueNow, Some err),
                     tr1 @ [AgentUpgrade \<lparr>push_KubeVersion = [],
                              push_OSImageURL = spec_OSImageURL upInstance, push_OSVersion = []\<rparr>])
                | None \<Rightarrow>
                    ((RequeueAfter, None),
                     tr1 @ [AgentUpgrade \<lparr>push_KubeVersion = [],
                              push_OSImageURL = spec_OSImageURL upInstance, push_OSVersion = []\<rparr>])))"
    if inst: "reqInstance c name HostName [] = ((upInstance, node), tr)"
      and kube: "spec_KubeVersion upInstance = []" and os: "spec_OSVersion upInstance = []"
      and img: "OSImage node \<noteq> []" and lab: "Labels node LabelUpgrading \<noteq> None"
    using kube os img lab
    by (simp add: Reconcile_def inst checkUpgrade_def upgradeNodes_def
        split: prod.splits option.splits)
  have d: "NodeDrain (spec_EvictPodForce upInstance) (Name node) \<in> set (snd (Reconcile c name HostName))"
    if inst: "reqInstance c name HostName [] = ((upInstance, node), tr)"
      and kube: "spec_KubeVersion upInstance = []" and os: "spec_OSVersion upInstance = []"
      and img: "OSImage node \<noteq> []" and lab: "Labels node LabelUpgrading \<noteq> None"
      and cordon: "fst (cordonOrUncordonNode c True node tr) = None"
    using drainNode_drains [OF cordon, of "spec_EvictPodForce upInstance"]
    unfolding c [OF inst kube os img lab]
    by (auto split: prod.splits option.splits)
  show ?thesis
    using a b c d by blast
qed

theorem C10_empty_targets_witness:
  "checkUpgrade {''/var/housekeeper/1.28.0.stamp''} ''NestOS 22.03'' [] [] = True
   \<and> Reconcile (sampleCluster (Inr zeroUpdate) (sampleNode True False ''NestOS 22.03'') None None
        {''/var/housekeeper/1.28.0.stamp''}) ''update'' ''node-1''
     = ((RequeueAfter, None),
        [ClientGetUpdate ''update'', ClientGetNode ''node-1'',
         CordonOrUncordon ''node-1'' True, NodeDrain False ''node-1'',
         AgentUpgrade \<lparr>push_KubeVersion = [], push_OSImageURL = [], push_OSVersion = []\<rparr>])"
proof -
  let ?node = "sampleNode True False ''NestOS 22.03''"
  let ?fs = "{''/var/housekeeper/1.28.0.stamp''}"
  let ?c = "sampleCluster (Inr zeroUpdate) ?node None None ?fs"
  let ?tr = "[ClientGetUpdate ''update'', ClientGetNode ''node-1'']"
  have inst: "reqInstance ?c ''update'' ''node-1'' [] = ((zeroUpdate, ?node), ?tr)"
    by (rule sample_reqInstance)
  have kube: "spec_KubeVersion zeroUpdate = []" and os: "spec_OSVersion zeroUpdate = []"
    by (simp_all add: zeroUpdate_def)
  have img: "OSImage ?node \<noteq> []" and lab: "Labels ?node LabelUpgrading \<noteq> None"
    by (simp_all add: sampleNode_def)
  have dr: "drainNode ?c (spec_EvictPodForce zeroUpdate) ?node ?tr =
              (None, ?tr @ [CordonOrUncordon ''node-1'' True, NodeDrain False ''node-1''])"
    by (simp add: drainNode_def cordonOrUncordonNode_def sampleCluster_def sampleNode_def
        zeroUpdate_def)
  have ag: "UpgradeKubeSpec ?c p = None" for p
    by (simp add: sampleCluster_def)
  note inst_thm = C10_empty_targets [of ?fs "''NestOS 22.03''" "[]" ?c "''update''" "''node-1''"
      zeroUpdate ?node ?tr]
  have due: "checkUpgrade ?fs ''NestOS 22.03'' [] [] = True"
    using inst_thm by simp
  have url: "spec_OSImageURL zeroUpdate = []"
    by (simp add: zeroUpdate_def)
  have "Reconcile ?c ''update'' ''node-1'' =
          (case drainNode ?c (spec_EvictPodForce zeroUpdate) ?node ?tr of
             (Some err, tr1) \<Rightarrow> ((RequeueNow, Some err), tr1)
           | (None, tr1) \<Rightarrow>
               (case UpgradeKubeSpec ?c
                       \<lparr>push_KubeVersion = [], push_OSImageURL = spec_OSImageURL zeroUpdate,
                        push_OSVersion = []\<rparr> of
                  Some err \<Rightarrow>
                    ((RequeueNow, Some err),
                     tr1 @ [AgentUpgrade \<lparr>push_KubeVersion = [],
                              push_OSImageURL = spec_OSImageURL zeroUpdate, push_OSVersion = []\<rparr>])
                | None \<Rightarrow>
                    ((RequeueAfter, None),
                     tr1 @ [AgentUpgrade \<lparr>push_KubeVersion = [],
                              push_OSImageURL = spec_OSImageURL zeroUpdate, push_OSVersion = []\<rparr>])))"
    using inst_thm inst kube os img lab by blast
  then have run: "Reconcile ?c ''update'' ''node-1'' =
      ((RequeueAfter, None),
        ?tr @ [CordonOrUncordon ''node-1'' True, NodeDrain False ''node-1'',
         AgentUpgrade \<lparr>push_KubeVersion = [], push_OSImageURL = [], push_OSVersion = []\<rparr>])"
    unfolding dr ag url by simp
  show ?thesis
    using due run by simp
qed

end
